theory Spec2Isabelle
  imports Main
begin

section \<open>JavaScript values, thrown errors and the collaborators of the controller\<close>

text \<open>
  The controller never inspects the values that travel through it (call arguments, capability
  outputs, the payload of an exit), so a JSON-like value type is enough. \<open>JUndefined\<close> is
  JavaScript's \<^verbatim>\<open>undefined\<close>; numbers are opaque to the controller.
\<close>

datatype jsval =
    JUndefined
  | JNull
  | JBool bool
  | JNum int
  | JStr string
  | JArr "jsval list"
  | JObj "(string \<times> jsval) list"

text \<open>
  Modelled from the spec: the error classes \<^verbatim>\<open>Exit\<close>, \<^verbatim>\<open>Feedback\<close>, \<^verbatim>\<open>Interrupt\<close> and
  \<^verbatim>\<open>Internal\<close> are imported from \<^verbatim>\<open>errors.ts\<close>, which is not among the sources. Following the
  taxonomy of the spec they are four disjoint classes: Feedback carries a message, Interrupt
  wraps an inner error (\<^verbatim>\<open>inner_error\<close>), Internal carries a message, Exit carries the terminal
  output (\<^verbatim>\<open>undefined\<close> when constructed without an argument). \<open>TypeError\<close> and \<open>Error\<close>
  are JavaScript's own error classes, which belong to none of the four: they stand for every
  unclassified exception, with their message.
\<close>

datatype exn =
    Feedback string
  | Interrupt exn
  | Internal string
  | Exit jsval
  | TypeError string
  | Error string

datatype role = User | System

record message =
  msg_role :: role
  content :: string

record FunctionCall =
  name :: string
  reasoning :: "string option"
  arguments :: "jsval list"

record Action =
  call :: FunctionCall
  action_output :: jsval

text \<open>
  Modelled from the spec: \<^verbatim>\<open>Scope\<close> and \<^verbatim>\<open>Prompts\<close> come from \<^verbatim>\<open>prompts.ts\<close>, which is not among
  the sources. A scope accumulates declaration fragments in order: \<^verbatim>\<open>addFromId\<close> appends the
  declaration found under a stable path, \<^verbatim>\<open>addNode\<close> appends an already rendered node. What
  \<^verbatim>\<open>newScope()\<close> returns is left open: it is a field of \<open>Prompts\<close>.
\<close>

record prompt_node =
  node_type :: string
  fmt :: string
  node_id :: string
  ast_ty :: string

datatype scope_item = FromId string string string | Node prompt_node

type_synonym Scope = "scope_item list"

definition addFromId :: "Scope \<Rightarrow> string \<Rightarrow> string \<Rightarrow> string \<Rightarrow> Scope" where
  "addFromId scope kind cls member = scope @ [FromId kind cls member]"

definition addNode :: "Scope \<Rightarrow> prompt_node \<Rightarrow> Scope" where
  "addNode scope node = scope @ [Node node]"

record Prompts =
  newScope :: Scope

text \<open>
  The template (\<^verbatim>\<open>const.ts\<close>, not among the sources) is a parameter of the model: any four
  operations. \<^verbatim>\<open>parseResponse\<close> throws on a reply it cannot parse, which is \<open>None\<close> here; the
  three renderers are taken to return a string.
\<close>

record Template =
  tpl_renderContext :: "Scope \<Rightarrow> string"
  tpl_renderOutput :: "jsval \<Rightarrow> string"
  tpl_renderError :: "exn \<Rightarrow> string"
  tpl_parseResponse :: "string \<Rightarrow> FunctionCall option"

record ExportDescriptor =
  property_key :: string
  adder :: "Scope \<Rightarrow> Scope"
  description :: "string option"

text \<open>
  \<^verbatim>\<open>ExportsMap\<close> wraps a JavaScript \<^verbatim>\<open>Map\<close>: an association list in insertion order, where
  setting a key that is present replaces its value in place.
\<close>

type_synonym ExportsMap = "(string \<times> ExportDescriptor) list"

definition ExportsMap_get :: "ExportsMap \<Rightarrow> string \<Rightarrow> ExportDescriptor option" where
  "ExportsMap_get inner key = map_of inner key"

fun ExportsMap_insert :: "ExportsMap \<Rightarrow> string \<Rightarrow> ExportDescriptor \<Rightarrow> ExportsMap" where
  "ExportsMap_insert [] key d = [(key, d)]"
| "ExportsMap_insert ((k, v) # inner) key d =
     (if k = key then (k, d) # inner else (k, v) # ExportsMap_insert inner key d)"

definition ExportsMap_forEach :: "ExportsMap \<Rightarrow> (ExportDescriptor \<Rightarrow> 's \<Rightarrow> 's) \<Rightarrow> 's \<Rightarrow> 's" where
  "ExportsMap_forEach inner fn s = fold (\<lambda>(k, d). fn d) inner s"

text \<open>
  The decorator \<^verbatim>\<open>use\<close> registers a method of a class under its own name: it creates the
  registry on the first use and sets the descriptor, whose adder looks the method's declaration
  up by class and method identifier. \<^verbatim>\<open>Scope.ident\<close> (\<^verbatim>\<open>prompts.ts\<close>) is a parameter.
\<close>

definition use ::
  "(string \<Rightarrow> string) \<Rightarrow> string \<Rightarrow> ExportsMap option \<Rightarrow> string \<Rightarrow> ExportsMap"
where
  "use ident constructor_name target_exports key =
     ExportsMap_insert (case target_exports of None \<Rightarrow> [] | Some exps \<Rightarrow> exps) key
       \<lparr> property_key = key,
         adder = (\<lambda>scope. addFromId scope ''method_decl'' (ident constructor_name) (ident key)),
         description = None \<rparr>"

text \<open>
  Everything outside the controller that a model exchange or a capability can read and change
  (the conversation held by the model client, the agent's own fields) is a state of type \<open>'w\<close>,
  threaded through both suspension points. A call either returns a value or throws.
\<close>

type_synonym 'w LLM = "message list \<Rightarrow> 'w \<Rightarrow> (exn + string) \<times> 'w"

datatype 'w member =
    Method "jsval list \<Rightarrow> 'w \<Rightarrow> (exn + jsval) \<times> 'w"
  | Data jsval

text \<open>
  An agent is an object indexed by strings. \<open>agent_exports\<close> is its \<^verbatim>\<open>exports\<close> property
  (absent on an agent without a decorated method), \<open>agent_template\<close> its \<^verbatim>\<open>template\<close>
  property, \<open>members\<close> every other property: a function or some other value.
\<close>

record 'w Agent =
  agent_exports :: "ExportsMap option"
  agent_template :: "Template option"
  members :: "string \<Rightarrow> 'w member option"

record AgentControllerOpts =
  allow_exit :: "bool option"

record Pending =
  role :: role
  prompt :: "string option"

record Exited =
  "output" :: jsval

text \<open>
  The result of a tick is the untyped union \<^verbatim>\<open>Exited | Pending\<close>; what tells the two apart at
  run time is the set of property keys of the object literal that \<^verbatim>\<open>tick\<close> built. An optional
  property that the literal does not mention is absent (\<open>prompt = None\<close>).
\<close>

datatype TickResult = PendingR Pending | ExitedR Exited

fun keys :: "TickResult \<Rightarrow> string list" where
  "keys (ExitedR e) = [''output'']"
| "keys (PendingR p) = (case prompt p of None \<Rightarrow> [''role''] | Some _ \<Rightarrow> [''prompt'', ''role''])"

definition isExited :: "TickResult \<Rightarrow> bool" where
  "isExited pending = (''output'' \<in> set (keys pending))"

definition isPending :: "TickResult \<Rightarrow> bool" where
  "isPending exited = (''prompt'' \<in> set (keys exited))"

section \<open>The agent controller\<close>

record 'w AgentController =
  agent :: "'w Agent"
  prompts :: Prompts
  exports :: ExportsMap
  llm :: "'w LLM"
  template :: Template
  history :: "Action list"
  opts :: AgentControllerOpts
  retries :: nat
  max_retries :: nat
  world :: 'w

text \<open>
  The constructor. \<open>Naive\<close> is the default template of \<^verbatim>\<open>const.ts\<close>, a parameter here; the
  options default to the empty object when the caller passes none.
\<close>

definition new_AgentController ::
  "Template \<Rightarrow> 'w Agent \<Rightarrow> Prompts \<Rightarrow> 'w LLM \<Rightarrow> AgentControllerOpts option \<Rightarrow> 'w \<Rightarrow> 'w AgentController"
where
  "new_AgentController Naive ag ps model os w =
     \<lparr> agent = ag,
       prompts = ps,
       exports = (case agent_exports ag of Some e \<Rightarrow> e | None \<Rightarrow> []),
       llm = model,
       template = (case agent_template ag of Some t \<Rightarrow> t | None \<Rightarrow> Naive),
       history = [],
       opts = (case os of Some given \<Rightarrow> given | None \<Rightarrow> \<lparr>allow_exit = None\<rparr>),
       retries = 0,
       max_retries = 5,
       world = w \<rparr>"

definition exit_node :: prompt_node where
  "exit_node = \<lparr> node_type = ''ts'', fmt = ''builtins.exit'', node_id = ''builtins.exit'',
                 ast_ty = ''fn_decl'' \<rparr>"

definition context_scope :: "'w AgentController \<Rightarrow> Scope" where
  "context_scope c =
     (let scope = ExportsMap_forEach (exports c) adder (newScope (prompts c))
      in if (case allow_exit (opts c) of None \<Rightarrow> True | Some b \<Rightarrow> b)
         then addNode scope exit_node
         else scope)"

definition renderContext :: "'w AgentController \<Rightarrow> string" where
  "renderContext c = tpl_renderContext (template c) (context_scope c)"

text \<open>\<^verbatim>\<open>String.prototype.split\<close> with a one-character separator, and \<^verbatim>\<open>startsWith\<close>.\<close>

fun split :: "char \<Rightarrow> string \<Rightarrow> string list" where
  "split sep [] = [[]]"
| "split sep (x # xs) =
     (if x = sep then [] # split sep xs
      else (case split sep xs of [] \<Rightarrow> [[x]] | y # ys \<Rightarrow> (x # y) # ys))"

definition startsWith :: "string \<Rightarrow> string \<Rightarrow> bool" where
  "startsWith s p = (take (length p) s = p)"

text \<open>Reading an array at an index: \<^verbatim>\<open>undefined\<close> (\<open>None\<close>) out of range.\<close>

definition at_index :: "'a list \<Rightarrow> nat \<Rightarrow> 'a option" where
  "at_index xs i = (if i < length xs then Some (xs ! i) else None)"

text \<open>
  \<^verbatim>\<open>handleBuiltin\<close> never returns: every path throws. \<^verbatim>\<open>new Exit()\<close> carries \<^verbatim>\<open>undefined\<close>. An
  \<^verbatim>\<open>undefined\<close> builtin name is interpolated as the text \<^verbatim>\<open>undefined\<close>.
\<close>

definition handleBuiltin :: "Action \<Rightarrow> exn" where
  "handleBuiltin action =
     (let builtin = at_index (split (CHR ''.'') (name (call action))) 1
      in if builtin = Some ''exit'' then
           (if length (arguments (call action)) = 0 then Exit JUndefined
            else Exit (case at_index (arguments (call action)) 0 of
                         Some v \<Rightarrow> v | None \<Rightarrow> JUndefined))
         else Internal (''unknown builtin '' @ [CHR 0x27] @
                 (case builtin of Some b \<Rightarrow> b | None \<Rightarrow> ''undefined'') @ [CHR 0x27]))"

text \<open>
  \<^verbatim>\<open>doAction\<close> reads the registry from the agent itself (\<^verbatim>\<open>this.agent.exports\<close>); calling
  \<^verbatim>\<open>get\<close> on a missing registry is JavaScript's own TypeError. Logging has no effect on the
  controller and is left out.
\<close>

definition doAction :: "'w AgentController \<Rightarrow> Action \<Rightarrow> (exn + unit) \<times> 'w AgentController" where
  "doAction c action =
     (if startsWith (name (call action)) ''builtins.'' then (Inl (handleBuiltin action), c)
      else case agent_exports (agent c) of
        None \<Rightarrow> (Inl (TypeError ''Cannot read properties of undefined (reading 'get')''), c)
      | Some exps \<Rightarrow>
         (case ExportsMap_get exps (name (call action)) of
            None \<Rightarrow> (Inl (TypeError (name (call action) @ '' is not a function'')), c)
          | Some export_descriptor \<Rightarrow>
             (let call_name = property_key export_descriptor
              in case members (agent c) call_name of
                   Some (Method f) \<Rightarrow>
                     (case f (arguments (call action)) (world c) of
                        (Inl err, w) \<Rightarrow> (Inl err, c\<lparr>world := w\<rparr>)
                      | (Inr out, w) \<Rightarrow>
                          (Inr (), c\<lparr>world := w,
                                     history := history c @ [action\<lparr>action_output := out\<rparr>]\<rparr>))
                 | _ \<Rightarrow> (Inl (TypeError (name (call action) @ '' is not a function'')), c))))"

definition prompt_text :: "'w AgentController \<Rightarrow> string option \<Rightarrow> string" where
  "prompt_text c p =
     (case p of
        Some text \<Rightarrow> text
      | None \<Rightarrow>
          if length (history c) = 0 then renderContext c
          else tpl_renderOutput (template c) (action_output (last (history c))))"

definition complete ::
  "'w AgentController \<Rightarrow> string option \<Rightarrow> role option \<Rightarrow> (exn + unit) \<times> 'w AgentController"
where
  "complete c p r =
     (let rl = (case r of None \<Rightarrow> System | Some x \<Rightarrow> x);
          text = prompt_text c p
      in case llm c [\<lparr>msg_role = rl, content = text\<rparr>] (world c) of
           (Inl err, w) \<Rightarrow> (Inl err, c\<lparr>world := w\<rparr>)
         | (Inr completion, w) \<Rightarrow>
             (case tpl_parseResponse (template c) completion of
                None \<Rightarrow>
                  (Inl (Feedback (''could not extract JSON from your response: '' @ completion)),
                   c\<lparr>world := w\<rparr>)
              | Some response \<Rightarrow>
                  doAction (c\<lparr>world := w\<rparr>) \<lparr>call = response, action_output = JUndefined\<rparr>))"

text \<open>The \<^verbatim>\<open>catch\<close> block of \<^verbatim>\<open>tick\<close>: the budget test comes first, then the classification.\<close>

definition tick_catch ::
  "'w AgentController \<Rightarrow> exn \<Rightarrow> (exn + TickResult) \<times> 'w AgentController"
where
  "tick_catch c err =
     (if retries c \<ge> max_retries c then (Inl err, c)
      else case err of
        Feedback msg \<Rightarrow>
          (Inr (PendingR \<lparr>role = System, prompt = Some msg\<rparr>), c\<lparr>retries := retries c + 1\<rparr>)
      | Interrupt inner_error \<Rightarrow> (Inl inner_error, c)
      | Internal _ \<Rightarrow> (Inl err, c)
      | Exit out \<Rightarrow> (Inr (ExitedR \<lparr>output = out\<rparr>), c)
      | _ \<Rightarrow>
          (Inr (PendingR \<lparr>role = System, prompt = Some (tpl_renderError (template c) err)\<rparr>),
           c\<lparr>retries := retries c + 1\<rparr>))"

text \<open>\<^verbatim>\<open>tick\<close>; its argument defaults to \<^verbatim>\<open>{role: "user"}\<close> when the caller passes none.\<close>

definition tick_arg :: "Pending option \<Rightarrow> Pending" where
  "tick_arg arg = (case arg of None \<Rightarrow> \<lparr>role = User, prompt = None\<rparr> | Some p \<Rightarrow> p)"

definition tick ::
  "'w AgentController \<Rightarrow> Pending option \<Rightarrow> (exn + TickResult) \<times> 'w AgentController"
where
  "tick c arg =
     (case complete c (prompt (tick_arg arg)) (Some (role (tick_arg arg))) of
        (Inr _, c') \<Rightarrow> (Inr (PendingR \<lparr>role = User, prompt = None\<rparr>), c'\<lparr>retries := 0\<rparr>)
      | (Inl err, c') \<Rightarrow> tick_catch c' err)"

text \<open>
  \<^verbatim>\<open>runToCompletion\<close> loops until a tick is \<^verbatim>\<open>isExited\<close>, which holds exactly of the \<open>ExitedR\<close>
  results; a tick that throws ends the loop with that error. The loop need not end: \<open>None\<close>
  is the run that never returns.
\<close>

partial_function (option) runToCompletion ::
  "'w AgentController \<Rightarrow> Pending option \<Rightarrow> ((exn + jsval) \<times> 'w AgentController) option"
where
  "runToCompletion c t =
     (case tick c t of
        (Inl err, c') \<Rightarrow> Some (Inl err, c')
      | (Inr (ExitedR e), c') \<Rightarrow> Some (Inr (output e), c')
      | (Inr (PendingR p), c') \<Rightarrow> runToCompletion c' (Some p))"

section \<open>Entry points\<close>

text \<open>
  The model client class \<^verbatim>\<open>llm.OpenAIChatCompletion\<close> and the dynamic \<^verbatim>\<open>import\<close> of the agent's
  module are parameters: a client for each key, and for each URL the module's default export
  when it has one.
\<close>

record ('o, 'w) ControllerFlags =
  source_url :: string
  cf_prompts :: Prompts
  cf_openai_key :: string
  agent_options :: 'o
  cf_allow_exit :: "bool option"

definition makeController ::
  "Template \<Rightarrow> (string \<Rightarrow> 'w LLM) \<Rightarrow> (string \<Rightarrow> ('o \<Rightarrow> 'w Agent) option) \<Rightarrow>
   ('o, 'w) ControllerFlags \<Rightarrow> 'w \<Rightarrow> exn + 'w AgentController"
where
  "makeController Naive OpenAIChatCompletion import_default flags w =
     (case import_default (source_url flags) of
        None \<Rightarrow>
          Inl (Internal (''module does not have a default export'' @ [CHR 0x0A, CHR 0x0A] @
                 ''try adding:'' @ [CHR 0x0A, CHR 0x0A] @
                 ''  export default () => new MyAgent()''))
      | Some mk \<Rightarrow>
          (let ag = mk (agent_options flags);
               model = OpenAIChatCompletion (cf_openai_key flags)
           in Inr (new_AgentController Naive ag (cf_prompts flags) model
                     (Some \<lparr>allow_exit = cf_allow_exit flags\<rparr>) w)))"

record 'w RunFlags =
  rf_agent :: "'w Agent"
  rf_prompts :: Prompts
  rf_openai_key :: string
  rf_allow_exit :: "bool option"

text \<open>The controller that \<^verbatim>\<open>run\<close> constructs: the constructor gets no options argument.\<close>

definition run_controller ::
  "Template \<Rightarrow> (string \<Rightarrow> 'w LLM) \<Rightarrow> 'w RunFlags \<Rightarrow> 'w \<Rightarrow> 'w AgentController"
where
  "run_controller Naive OpenAIChatCompletion flags w =
     (let model = OpenAIChatCompletion (rf_openai_key flags)
      in new_AgentController Naive (rf_agent flags) (rf_prompts flags) model None w)"

definition run ::
  "Template \<Rightarrow> (string \<Rightarrow> 'w LLM) \<Rightarrow> 'w RunFlags \<Rightarrow> 'w \<Rightarrow>
   ((exn + jsval) \<times> 'w AgentController) option"
where
  "run Naive OpenAIChatCompletion flags w =
     runToCompletion (run_controller Naive OpenAIChatCompletion flags w) None"

section \<open>A small agent, used to run the model on concrete inputs\<close>

text \<open>
  The outside world is the list of replies the model will give, one for each exchange. The
  agent exposes \<^verbatim>\<open>add\<close> (adds its numeric arguments), \<^verbatim>\<open>boom\<close> (throws an Interrupt around an
  application error) and \<^verbatim>\<open>crash\<close> (throws a plain error); \<^verbatim>\<open>task\<close> is registered but is a
  string, not a function.
\<close>

definition scripted_llm :: "string list LLM" where
  "scripted_llm msgs w =
     (case w of [] \<Rightarrow> (Inl (Error ''connection closed''), [])
              | reply # rest \<Rightarrow> (Inr reply, rest))"

fun add_args :: "jsval list \<Rightarrow> int" where
  "add_args [] = 0"
| "add_args (JNum n # vs) = n + add_args vs"
| "add_args (_ # vs) = add_args vs"

definition example_members :: "string \<Rightarrow> string list member option" where
  "example_members key =
     (if key = ''add'' then Some (Method (\<lambda>args w. (Inr (JNum (add_args args)), w)))
      else if key = ''boom'' then
        Some (Method (\<lambda>args w. (Inl (Interrupt (Error ''disk full'')), w)))
      else if key = ''crash'' then Some (Method (\<lambda>args w. (Inl (Error ''out of range''), w)))
      else if key = ''task'' then Some (Data (JStr ''sum the numbers''))
      else None)"

definition example_exports :: ExportsMap where
  "example_exports =
     foldl (\<lambda>exps key. use (\<lambda>s. s) ''Calc'' (Some exps) key) []
       [''add'', ''boom'', ''crash'', ''task'']"

definition example_agent :: "string list Agent" where
  "example_agent =
     \<lparr> agent_exports = Some example_exports,
       agent_template = None,
       members = example_members \<rparr>"

text \<open>
  A reply \<^verbatim>\<open>name\<close> or \<^verbatim>\<open>name arg\<close>, with a one-digit argument, parses to a call; a reply that
  starts with \<^verbatim>\<open>?\<close> does not parse. The error renderer restates the reply shape.
\<close>

definition example_parse :: "string \<Rightarrow> FunctionCall option" where
  "example_parse s =
     (if startsWith s ''?'' then None
      else case split (CHR '' '') s of
        [n] \<Rightarrow> Some \<lparr>name = n, reasoning = None, arguments = []\<rparr>
      | [n, [d]] \<Rightarrow>
          Some \<lparr>name = n, reasoning = None, arguments = [JNum (int (of_char d) - 48)]\<rparr>
      | [n, [d], [e]] \<Rightarrow>
          Some \<lparr>name = n, reasoning = None,
                arguments = [JNum (int (of_char d) - 48), JNum (int (of_char e) - 48)]\<rparr>
      | _ \<Rightarrow> None)"

fun exn_message :: "exn \<Rightarrow> string" where
  "exn_message (Feedback m) = m"
| "exn_message (Interrupt e) = exn_message e"
| "exn_message (Internal m) = m"
| "exn_message (Exit v) = ''exit''"
| "exn_message (TypeError m) = m"
| "exn_message (Error m) = m"

definition example_template :: Template where
  "example_template =
     \<lparr> tpl_renderContext = (\<lambda>scope. ''context''),
       tpl_renderOutput = (\<lambda>v. ''output''),
       tpl_renderError = (\<lambda>e. ''error: '' @ exn_message e @
          ''. Reply with an object with name, reasoning and arguments.''),
       tpl_parseResponse = example_parse \<rparr>"

definition example_controller :: "string list \<Rightarrow> string list AgentController" where
  "example_controller replies =
     new_AgentController example_template example_agent \<lparr>newScope = []\<rparr> scripted_llm None replies"

section \<open>Vocabulary of the properties\<close>

text \<open>
  The call of \<^verbatim>\<open>complete\<close> that \<open>tick c a\<close> makes, the single message it sends, and the
  exchange with the model client that this call starts with.
\<close>

definition tick_complete ::
  "'w AgentController \<Rightarrow> Pending option \<Rightarrow> (exn + unit) \<times> 'w AgentController"
where
  "tick_complete c a = complete c (prompt (tick_arg a)) (Some (role (tick_arg a)))"

definition tick_message :: "'w AgentController \<Rightarrow> Pending option \<Rightarrow> message" where
  "tick_message c a =
     \<lparr>msg_role = role (tick_arg a), content = prompt_text c (prompt (tick_arg a))\<rparr>"

definition exchange :: "'w AgentController \<Rightarrow> Pending option \<Rightarrow> (exn + string) \<times> 'w" where
  "exchange c a = llm c [tick_message c a] (world c)"

text \<open>
  The recoverable errors are the ones the \<^verbatim>\<open>catch\<close> block turns into a prompt: Feedback, and
  whatever is none of the four classes. The prompt it builds from such an error is the message
  of a Feedback and the template's rendering of any other.
\<close>

fun recoverable :: "exn \<Rightarrow> bool" where
  "recoverable (Feedback _) = True"
| "recoverable (Interrupt _) = False"
| "recoverable (Internal _) = False"
| "recoverable (Exit _) = False"
| "recoverable _ = True"

fun corrective_prompt :: "Template \<Rightarrow> exn \<Rightarrow> string" where
  "corrective_prompt t (Feedback msg) = msg"
| "corrective_prompt t err = tpl_renderError t err"

text \<open>
  A run of consecutive failures of the driver loop. \<open>failing_ticks k c a = Some (err, r, c')\<close>
  says: started on controller \<open>c\<close> with argument \<open>a\<close>, each of the first \<open>k + 1\<close> ticks caught
  a recoverable error thrown by \<^verbatim>\<open>complete\<close>, the first \<open>k\<close> of them returned a Pending, which
  the loop passed to the next tick; \<open>err\<close> is the error caught by tick number \<open>k + 1\<close>, \<open>r\<close>
  what that tick returned or threw, \<open>c'\<close> the controller after it.
\<close>

fun failing_ticks ::
  "nat \<Rightarrow> 'w AgentController \<Rightarrow> Pending option \<Rightarrow>
   (exn \<times> (exn + TickResult) \<times> 'w AgentController) option"
where
  "failing_ticks 0 c a =
     (case fst (tick_complete c a) of
        Inl err \<Rightarrow> if recoverable err then Some (err, tick c a) else None
      | Inr _ \<Rightarrow> None)"
| "failing_ticks (Suc k) c a =
     (case fst (tick_complete c a) of
        Inl err \<Rightarrow>
          if recoverable err then
            (case tick c a of
               (Inr (PendingR p), c') \<Rightarrow> failing_ticks k c' (Some p)
             | _ \<Rightarrow> None)
          else None
      | Inr _ \<Rightarrow> None)"

text \<open>
  The spec's words for a corrective prompt: it restates the required reply shape, an object
  with \<^verbatim>\<open>name\<close>, optional \<^verbatim>\<open>reasoning\<close> and \<^verbatim>\<open>arguments\<close>. A text that does so names at least the
  two required fields.
\<close>

fun contains :: "string \<Rightarrow> string \<Rightarrow> bool" where
  "contains [] p = (p = [])"
| "contains (x # xs) p = (startsWith (x # xs) p \<or> contains xs p)"

definition restates_reply_shape :: "string \<Rightarrow> bool" where
  "restates_reply_shape text = (contains text ''name'' \<and> contains text ''arguments'')"

text \<open>
  A registered name resolves to something invokable when the registry has a descriptor for it
  and the agent's property under the descriptor's key is a function
  (\<^verbatim>\<open>typeof this.agent[call_name] === "function"\<close>).
\<close>

definition registered_function :: "'w Agent \<Rightarrow> ExportsMap \<Rightarrow> string \<Rightarrow> bool" where
  "registered_function ag exps key =
     (case ExportsMap_get exps key of
        None \<Rightarrow> False
      | Some d \<Rightarrow> (case members ag (property_key d) of Some (Method _) \<Rightarrow> True | _ \<Rightarrow> False))"

text \<open>
  The loop of \<^verbatim>\<open>runToCompletion\<close> cut after \<open>n + 1\<close> ticks: \<open>drive n c a\<close> is what the last tick
  that ran returned or threw, and the controller after it. It stops before \<open>n + 1\<close> ticks
  where the loop stops, at a tick that throws or exits.
\<close>

fun drive ::
  "nat \<Rightarrow> 'w AgentController \<Rightarrow> Pending option \<Rightarrow> (exn + TickResult) \<times> 'w AgentController"
where
  "drive 0 c a = tick c a"
| "drive (Suc n) c a =
     (case tick c a of
        (Inr (PendingR p), c') \<Rightarrow> drive n c' (Some p)
      | other \<Rightarrow> other)"

section \<open>What a call of complete changes\<close>

lemma doAction_frame:
  "retries (snd (doAction c act)) = retries c \<and>
   max_retries (snd (doAction c act)) = max_retries c \<and>
   template (snd (doAction c act)) = template c \<and>
   agent (snd (doAction c act)) = agent c \<and>
   llm (snd (doAction c act)) = llm c \<and>
   opts (snd (doAction c act)) = opts c \<and>
   exports (snd (doAction c act)) = exports c \<and>
   prompts (snd (doAction c act)) = prompts c"
  by (simp add: doAction_def Let_def split: option.split member.split prod.split sum.split)

lemma doAction_history_Inl:
  "fst (doAction c act) = Inl e \<Longrightarrow> history (snd (doAction c act)) = history c"
  by (simp add: doAction_def Let_def
      split: option.split_asm member.split_asm prod.split_asm sum.split_asm if_split_asm)

lemma doAction_Inr:
  assumes "fst (doAction c act) = Inr u"
  shows "\<exists>exps d f out.
           \<not> startsWith (name (call act)) ''builtins.'' \<and>
           agent_exports (agent c) = Some exps \<and>
           ExportsMap_get exps (name (call act)) = Some d \<and>
           members (agent c) (property_key d) = Some (Method f) \<and>
           fst (f (arguments (call act)) (world c)) = Inr out \<and>
           world (snd (doAction c act)) = snd (f (arguments (call act)) (world c)) \<and>
           history (snd (doAction c act)) = history c @ [act\<lparr>action_output := out\<rparr>]"
  using assms
  by (simp add: doAction_def Let_def
      split: option.split_asm member.split_asm prod.split_asm sum.split_asm if_split_asm)

lemma tick_complete_cases:
  "tick_complete c a =
     (case exchange c a of
        (Inl err, w) \<Rightarrow> (Inl err, c\<lparr>world := w\<rparr>)
      | (Inr completion, w) \<Rightarrow>
         (case tpl_parseResponse (template c) completion of
            None \<Rightarrow>
              (Inl (Feedback (''could not extract JSON from your response: '' @ completion)),
               c\<lparr>world := w\<rparr>)
          | Some response \<Rightarrow>
              doAction (c\<lparr>world := w\<rparr>) \<lparr>call = response, action_output = JUndefined\<rparr>))"
  by (simp add: tick_complete_def exchange_def tick_message_def complete_def Let_def)

lemma tick_complete_dispatch:
  assumes "fst (exchange c a) = Inr completion"
    and "tpl_parseResponse (template c) completion = Some f"
  shows "tick_complete c a =
           doAction (c\<lparr>world := snd (exchange c a)\<rparr>) \<lparr>call = f, action_output = JUndefined\<rparr>"
  using assms by (cases "exchange c a") (simp add: tick_complete_cases)

lemma complete_frame:
  "retries (snd (complete c p r)) = retries c \<and>
   max_retries (snd (complete c p r)) = max_retries c \<and>
   template (snd (complete c p r)) = template c \<and>
   agent (snd (complete c p r)) = agent c \<and>
   llm (snd (complete c p r)) = llm c \<and>
   opts (snd (complete c p r)) = opts c \<and>
   exports (snd (complete c p r)) = exports c \<and>
   prompts (snd (complete c p r)) = prompts c"
  by (simp add: complete_def Let_def doAction_frame split: option.split prod.split sum.split)

lemma complete_history_Inl:
  "fst (complete c p r) = Inl e \<Longrightarrow> history (snd (complete c p r)) = history c"
  by (auto simp add: complete_def Let_def split: option.split_asm prod.split_asm sum.split_asm
      dest: doAction_history_Inl)

lemma tick_complete_frame:
  "retries (snd (tick_complete c a)) = retries c"
  "max_retries (snd (tick_complete c a)) = max_retries c"
  "template (snd (tick_complete c a)) = template c"
  by (simp_all add: tick_complete_def complete_frame)

lemma tick_complete_history_Inl:
  "fst (tick_complete c a) = Inl e \<Longrightarrow> history (snd (tick_complete c a)) = history c"
  by (simp add: tick_complete_def complete_history_Inl)

lemma tick_success:
  "fst (tick_complete c a) = Inr u \<Longrightarrow>
   tick c a = (Inr (PendingR \<lparr>role = User, prompt = None\<rparr>), (snd (tick_complete c a))\<lparr>retries := 0\<rparr>)"
  by (cases "complete c (prompt (tick_arg a)) (Some (role (tick_arg a)))")
    (simp add: tick_def tick_complete_def)

lemma tick_failure:
  "fst (tick_complete c a) = Inl err \<Longrightarrow> tick c a = tick_catch (snd (tick_complete c a)) err"
  by (cases "complete c (prompt (tick_arg a)) (Some (role (tick_arg a)))")
    (simp add: tick_def tick_complete_def)

lemma tick_catch_frame:
  "max_retries (snd (tick_catch c err)) = max_retries c"
  "template (snd (tick_catch c err)) = template c"
  "history (snd (tick_catch c err)) = history c"
  "world (snd (tick_catch c err)) = world c"
  by (simp_all add: tick_catch_def split: exn.split)

lemma tick_frame:
  "max_retries (snd (tick c a)) = max_retries c"
  "template (snd (tick c a)) = template c"
  by (cases "fst (tick_complete c a)";
      simp add: tick_success tick_failure tick_catch_frame tick_complete_frame)+

lemma tick_catch_recoverable:
  assumes "recoverable err" and "retries c < max_retries c"
  shows "tick_catch c err =
           (Inr (PendingR \<lparr>role = System, prompt = Some (corrective_prompt (template c) err)\<rparr>),
            c\<lparr>retries := retries c + 1\<rparr>)"
  using assms by (cases err) (simp_all add: tick_catch_def)

lemma tick_catch_exhausted:
  "max_retries c \<le> retries c \<Longrightarrow> tick_catch c err = (Inl err, c)"
  by (simp add: tick_catch_def)

lemma tick_complete_Inr:
  assumes "fst (tick_complete c a) = Inr u"
  shows "\<exists>completion f exps d g out.
           fst (exchange c a) = Inr completion \<and>
           tpl_parseResponse (template c) completion = Some f \<and>
           \<not> startsWith (name f) ''builtins.'' \<and>
           agent_exports (agent c) = Some exps \<and>
           ExportsMap_get exps (name f) = Some d \<and>
           members (agent c) (property_key d) = Some (Method g) \<and>
           fst (g (arguments f) (snd (exchange c a))) = Inr out \<and>
           history (snd (tick_complete c a)) = history c @ [\<lparr>call = f, action_output = out\<rparr>]"
  using assms
  by (simp add: tick_complete_cases doAction_def Let_def
      split: prod.split_asm sum.split_asm option.split_asm member.split_asm if_split_asm)

section \<open>The driver loop and the dispatch\<close>

lemma runToCompletion_drive_throws:
  "fst (drive n c a) = Inl err \<Longrightarrow> map_option fst (runToCompletion c a) = Some (Inl err)"
proof (induction n arbitrary: c a)
  case 0
  then show ?case
    by (subst runToCompletion.simps) (auto split: prod.split sum.split TickResult.split)
next
  case (Suc n)
  show ?case
  proof (cases "tick c a")
    case (Pair r c1)
    show ?thesis
    proof (cases r)
      case (Inl e)
      with Pair Suc.prems show ?thesis
        by (subst runToCompletion.simps) simp
    next
      case (Inr res)
      show ?thesis
      proof (cases res)
        case (PendingR p)
        with Inr Pair Suc.prems have "fst (drive n c1 (Some p)) = Inl err" by simp
        from Suc.IH [OF this] Inr Pair PendingR show ?thesis
          by (subst runToCompletion.simps) simp
      next
        case (ExitedR e)
        with Inr Pair Suc.prems show ?thesis by simp
      qed
    qed
  qed
qed

lemma runToCompletion_drive_exits:
  "fst (drive n c a) = Inr (ExitedR e) \<Longrightarrow>
   map_option fst (runToCompletion c a) = Some (Inr (output e))"
proof (induction n arbitrary: c a)
  case 0
  then show ?case
    by (subst runToCompletion.simps) (auto split: prod.split sum.split TickResult.split)
next
  case (Suc n)
  show ?case
  proof (cases "tick c a")
    case (Pair r c1)
    show ?thesis
    proof (cases r)
      case (Inl e)
      with Pair Suc.prems show ?thesis by simp
    next
      case (Inr res)
      show ?thesis
      proof (cases res)
        case (PendingR p)
        with Inr Pair Suc.prems have "fst (drive n c1 (Some p)) = Inr (ExitedR e)" by simp
        from Suc.IH [OF this] Inr Pair PendingR show ?thesis
          by (subst runToCompletion.simps) simp
      next
        case (ExitedR e')
        with Inr Pair Suc.prems show ?thesis 
          by (subst runToCompletion.simps) simp
      qed
    qed
  qed
qed

lemma exhausted_run_raises_exit:
  "map_option fst (runToCompletion
      (example_controller [''?'', ''?'', ''?'', ''?'', ''?'', ''builtins.exit 7'']) None) =
   Some (Inl (Exit (JNum 7)))"
proof -
  have "fst (drive 5 (example_controller
          [''?'', ''?'', ''?'', ''?'', ''?'', ''builtins.exit 7'']) None) = Inl (Exit (JNum 7))"
    by code_simp
  then show ?thesis by (rule runToCompletion_drive_throws)
qed

lemma add_then_exit_run_returns:
  "map_option fst (runToCompletion
      (example_controller [''add 2 3'', ''? hm'', ''builtins.exit 5'']) None) =
   Some (Inr (JNum 5))"
proof -
  have "fst (drive 2 (example_controller [''add 2 3'', ''? hm'', ''builtins.exit 5'']) None) =
          Inr (ExitedR \<lparr>output = JNum 5\<rparr>)"
    by code_simp
  from runToCompletion_drive_exits [OF this] show ?thesis by simp
qed

lemma doAction_builtin:
  "startsWith (name (call act)) ''builtins.'' \<Longrightarrow>
   doAction c act = (Inl (handleBuiltin act), c)"
  by (simp add: doAction_def)

lemma doAction_not_a_function:
  assumes "\<not> startsWith (name (call act)) ''builtins.''"
    and "agent_exports (agent c) = Some exps"
    and "\<not> registered_function (agent c) exps (name (call act))"
  shows "doAction c act = (Inl (TypeError (name (call act) @ '' is not a function'')), c)"
  using assms
  by (auto simp add: doAction_def registered_function_def Let_def
      split: option.split member.split)

lemma split_first_segment:
  "split sep xs \<noteq> [] \<and> hd (split sep xs) = takeWhile (\<lambda>ch. ch \<noteq> sep) xs"
  by (induction xs) (auto split: list.split)

lemma builtin_segment:
  "at_index (split (CHR ''.'') (''builtins.'' @ x)) 1 =
     Some (takeWhile (\<lambda>ch. ch \<noteq> CHR ''.'') x)"
proof -
  obtain y ys where s: "split (CHR ''.'') x = y # ys"
    using split_first_segment [of "CHR ''.''" x] by (cases "split (CHR ''.'') x") auto
  with split_first_segment [of "CHR ''.''" x] have y: "y = takeWhile (\<lambda>ch. ch \<noteq> CHR ''.'') x"
    by simp
  show ?thesis by (simp add: at_index_def s y)
qed

lemma startsWith_builtins: "startsWith (''builtins.'' @ x) ''builtins.''"
  by (simp add: startsWith_def)

lemma handleBuiltin_exit:
  "name (call act) = ''builtins.exit'' \<Longrightarrow>
   handleBuiltin act = Exit (case arguments (call act) of [] \<Rightarrow> JUndefined | v # _ \<Rightarrow> v)"
  by (simp add: handleBuiltin_def at_index_def split: list.split)

lemma handleBuiltin_unknown:
  assumes "name (call act) = ''builtins.'' @ x"
    and "takeWhile (\<lambda>ch. ch \<noteq> CHR ''.'') x \<noteq> ''exit''"
  shows "handleBuiltin act =
           Internal (''unknown builtin '' @ [CHR 0x27] @
                     takeWhile (\<lambda>ch. ch \<noteq> CHR ''.'') x @ [CHR 0x27])"
  using assms builtin_segment [of x] by (simp add: handleBuiltin_def)

lemma tick_catch_Exit:
  "retries c < max_retries c \<Longrightarrow> tick_catch c (Exit v) = (Inr (ExitedR \<lparr>output = v\<rparr>), c)"
  by (simp add: tick_catch_def)

lemma tick_catch_Internal: "tick_catch c (Internal m) = (Inl (Internal m), c)"
  by (simp add: tick_catch_def)

lemma tick_catch_Interrupt:
  "retries c < max_retries c \<Longrightarrow> tick_catch c (Interrupt inner) = (Inl inner, c)"
  by (simp add: tick_catch_def)

lemma tick_complete_builtin:
  assumes "fst (exchange c a) = Inr completion"
    and "tpl_parseResponse (template c) completion = Some f"
    and "startsWith (name f) ''builtins.''"
  shows "tick_complete c a =
           (Inl (handleBuiltin \<lparr>call = f, action_output = JUndefined\<rparr>),
            c\<lparr>world := snd (exchange c a)\<rparr>)"
  using assms by (simp add: tick_complete_dispatch doAction_builtin)

section \<open>The success path\<close>

text \<open>
  Claim C2. Whenever the call of \<^verbatim>\<open>complete\<close> made by a tick returns without throwing, the tick
  returns the Pending \<^verbatim>\<open>{role: "user"}\<close> with no prompt, the retry counter is 0 afterwards and
  the history is longer by exactly one entry. That entry is the parsed call (a name outside the
  \<^verbatim>\<open>builtins.\<close> namespace, registered, resolving to a function of the agent) together with
  the value this function returned.
\<close>

theorem tick_success_resets:
  assumes "fst (tick_complete c a) = Inr u"
  shows "fst (tick c a) = Inr (PendingR \<lparr>role = User, prompt = None\<rparr>) \<and>
         retries (snd (tick c a)) = 0 \<and>
         length (history (snd (tick c a))) = length (history c) + 1 \<and>
         (\<exists>completion f exps d g out.
            fst (exchange c a) = Inr completion \<and>
            tpl_parseResponse (template c) completion = Some f \<and>
            \<not> startsWith (name f) ''builtins.'' \<and>
            agent_exports (agent c) = Some exps \<and>
            ExportsMap_get exps (name f) = Some d \<and>
            members (agent c) (property_key d) = Some (Method g) \<and>
            fst (g (arguments f) (snd (exchange c a))) = Inr out \<and>
            history (snd (tick c a)) = history c @ [\<lparr>call = f, action_output = out\<rparr>])"
proof -
  have t: "tick c a = (Inr (PendingR \<lparr>role = User, prompt = None\<rparr>),
                       (snd (tick_complete c a))\<lparr>retries := 0\<rparr>)"
    using assms by (rule tick_success)
  have h: "history (snd (tick c a)) = history (snd (tick_complete c a))"
    by (simp add: t)
  from tick_complete_Inr [OF assms]
  have len: "length (history (snd (tick_complete c a))) = length (history c) + 1"
    by (elim exE conjE) simp
  show ?thesis
    unfolding h using tick_complete_Inr [OF assms] len by (simp add: t)
qed

theorem tick_success_resets_witness:
  "fst (tick_complete (example_controller [''add 2 3'']) None) = Inr () \<and>
   fst (tick (example_controller [''add 2 3'']) None) =
     Inr (PendingR \<lparr>role = User, prompt = None\<rparr>) \<and>
   retries (snd (tick (example_controller [''add 2 3'']) None)) = 0 \<and>
   length (history (snd (tick (example_controller [''add 2 3'']) None))) = 1"
proof -
  let ?c = "example_controller [''add 2 3'']"
  have ok: "fst (tick_complete ?c None) = Inr ()" by code_simp
  have h0: "length (history ?c) = 0" by code_simp
  from tick_success_resets [OF ok] ok h0 show ?thesis by simp
qed

section \<open>The retry budget\<close>

text \<open>
  Claim C10. A tick entered with the retry counter at or above \<open>max_retries\<close>, in which
  \<^verbatim>\<open>complete\<close> throws, throws that same error whatever its class: the budget test comes before
  any \<^verbatim>\<open>instanceof\<close>. The tick returns no Pending and no Exited; the controller is left as
  \<^verbatim>\<open>complete\<close> left it.
\<close>

theorem tick_exhausted_rethrows:
  assumes "max_retries c \<le> retries c"
    and "fst (tick_complete c a) = Inl err"
  shows "tick c a = (Inl err, snd (tick_complete c a))"
  using assms by (simp add: tick_failure tick_catch_exhausted tick_complete_frame)

theorem tick_exhausted_rethrows_witness:
  "max_retries ((example_controller [''builtins.exit 7''])\<lparr>retries := 5\<rparr>)
     \<le> retries ((example_controller [''builtins.exit 7''])\<lparr>retries := 5\<rparr>) \<and>
   fst (tick_complete ((example_controller [''builtins.exit 7''])\<lparr>retries := 5\<rparr>) None)
     = Inl (Exit (JNum 7)) \<and>
   fst (tick ((example_controller [''builtins.exit 7''])\<lparr>retries := 5\<rparr>) None)
     = Inl (Exit (JNum 7))"
proof -
  let ?c = "(example_controller [''builtins.exit 7''])\<lparr>retries := 5\<rparr>"
  have budget: "max_retries ?c \<le> retries ?c" by code_simp
  have thrown: "fst (tick_complete ?c None) = Inl (Exit (JNum 7))" by code_simp
  from tick_exhausted_rethrows [OF budget thrown] budget thrown show ?thesis by simp
qed

text \<open>
  Claim C1. Take any run of consecutive ticks of the driver loop in which \<^verbatim>\<open>complete\<close> throws a
  recoverable error (a Feedback or an unclassified exception) every time, and look at the tick
  that comes after \<open>k\<close> such ticks, on a controller that started the run with \<open>retries c\<close>.
  While \<open>retries c + k < max_retries\<close> the error is turned into a corrective system prompt
  (the message of a Feedback, the template's rendering of anything else) and the counter has
  gone up by one for each error of the run. Once the counter has reached \<open>max_retries\<close> the
  error is thrown again as it was caught and the counter stays. From a fresh counter and with
  \<open>max_retries = 5\<close>: errors one to five are converted, the sixth propagates.
\<close>

theorem recoverable_errors_bounded:
  assumes "failing_ticks k c a = Some (err, r, c')"
  shows "recoverable err \<and>
         (retries c + k < max_retries c \<longrightarrow>
            r = Inr (PendingR \<lparr>role = System,
                               prompt = Some (corrective_prompt (template c) err)\<rparr>) \<and>
            retries c' = retries c + k + 1) \<and>
         (max_retries c \<le> retries c + k \<longrightarrow> r = Inl err \<and> retries c' = retries c + k)"
  using assms
proof (induction k arbitrary: c a)
  case 0
  from 0 obtain e where e: "fst (tick_complete c a) = Inl e"
    by (cases "fst (tick_complete c a)") simp_all
  with 0 have rec: "recoverable err" and eq: "e = err" and t: "tick c a = (r, c')"
    by (simp_all split: if_split_asm)
  have t': "tick c a = tick_catch (snd (tick_complete c a)) err"
    using e eq by (simp add: tick_failure)
  show ?case
  proof (cases "retries c < max_retries c")
    case True
    then show ?thesis
      using t t' rec
      by (auto simp add: tick_catch_recoverable tick_complete_frame)
  next
    case False
    then show ?thesis
      using t t' rec by (auto simp add: tick_catch_exhausted tick_complete_frame)
  qed
next
  case (Suc k)
  from Suc.prems obtain e where e: "fst (tick_complete c a) = Inl e"
    by (cases "fst (tick_complete c a)") simp_all
  with Suc.prems have rec: "recoverable e" by (simp split: if_split_asm)
  from Suc.prems e rec obtain p c1 where
    t: "tick c a = (Inr (PendingR p), c1)" and rest: "failing_ticks k c1 (Some p) = Some (err, r, c')"
    by (auto split: prod.split_asm sum.split_asm TickResult.split_asm)
  have t': "tick c a = tick_catch (snd (tick_complete c a)) e"
    using e by (simp add: tick_failure)
  have lt: "retries c < max_retries c"
  proof (rule ccontr)
    assume "\<not> retries c < max_retries c"
    then have "tick c a = (Inl e, snd (tick_complete c a))"
      using t' by (simp add: tick_catch_exhausted tick_complete_frame)
    with t show False by simp
  qed
  have c1: "retries c1 = retries c + 1" "max_retries c1 = max_retries c" "template c1 = template c"
    using t t' lt rec by (auto simp add: tick_catch_recoverable tick_complete_frame)
  from Suc.IH [OF rest] show ?case by (simp add: c1)
qed

theorem recoverable_errors_bounded_witness:
  "failing_ticks 1 (example_controller [''?'', ''crash'']) None \<noteq> None \<and>
   fst (snd (the (failing_ticks 1 (example_controller [''?'', ''crash'']) None))) =
     Inr (PendingR \<lparr>role = System, prompt = Some
       ''error: out of range. Reply with an object with name, reasoning and arguments.''\<rparr>) \<and>
   retries (snd (snd (the (failing_ticks 1 (example_controller [''?'', ''crash'']) None)))) = 2 \<and>
   failing_ticks 5 (example_controller [''?'', ''?'', ''crash'', ''foo'', ''?'', ''?x'']) None \<noteq> None \<and>
   fst (snd (the (failing_ticks 5
      (example_controller [''?'', ''?'', ''crash'', ''foo'', ''?'', ''?x'']) None))) =
     Inl (Feedback ''could not extract JSON from your response: ?x'') \<and>
   retries (snd (snd (the (failing_ticks 5
      (example_controller [''?'', ''?'', ''crash'', ''foo'', ''?'', ''?x'']) None)))) = 5"
proof -
  let ?c = "example_controller [''?'', ''crash'']"
  let ?d = "example_controller [''?'', ''?'', ''crash'', ''foo'', ''?'', ''?x'']"
  have rc: "retries ?c = 0" "max_retries ?c = 5" "retries ?d = 0" "max_retries ?d = 5"
    by code_simp+
  have tc: "template ?c = example_template"
    by (simp add: example_controller_def new_AgentController_def example_agent_def)
  have c: "failing_ticks 1 ?c None \<noteq> None" by code_simp
  then obtain e1 r1 c1 where c1: "failing_ticks 1 ?c None = Some (e1, r1, c1)" by auto
  have e1: "fst (the (failing_ticks 1 ?c None)) = Error ''out of range''" by code_simp
  have d: "failing_ticks 5 ?d None \<noteq> None" by code_simp
  then obtain e2 r2 c2 where d2: "failing_ticks 5 ?d None = Some (e2, r2, c2)" by auto
  have e2: "fst (the (failing_ticks 5 ?d None)) =
              Feedback ''could not extract JSON from your response: ?x''"
    by code_simp
  from recoverable_errors_bounded [OF c1] rc tc e1 c1
  have 1: "r1 = Inr (PendingR \<lparr>role = System, prompt = Some
       ''error: out of range. Reply with an object with name, reasoning and arguments.''\<rparr>)"
    "retries c1 = 2"
    by (simp_all add: example_template_def)
  from recoverable_errors_bounded [OF d2] rc e2 d2
  have 2: "r2 = Inl (Feedback ''could not extract JSON from your response: ?x'')"
    "retries c2 = 5"
    by simp_all
  show ?thesis using c d c1 d2 1 2 by simp
qed

section \<open>Dispatch of a call that is not a registered function\<close>

text \<open>
  Claim C3 as stated fails: the error that \<^verbatim>\<open>doAction\<close> throws for a name that is not
  registered is JavaScript's \<open>TypeError\<close>, which is not a Feedback, and the tick answers it
  through the last branch of the \<^verbatim>\<open>catch\<close> block: the prompt is the template's rendering of the
  error, not the bare message. With the example agent, the reply \<^verbatim>\<open>foo\<close>:
\<close>

theorem unregistered_call_counterexample:
  "fst (tick_complete (example_controller [''foo'']) None) =
     Inl (TypeError ''foo is not a function'') \<and>
   fst (tick (example_controller [''foo'']) None) =
     Inr (PendingR \<lparr>role = System, prompt = Some
       ''error: foo is not a function. Reply with an object with name, reasoning and arguments.''\<rparr>) \<and>
   fst (tick (example_controller [''foo'']) None) \<noteq>
     Inr (PendingR \<lparr>role = System, prompt = Some ''foo is not a function''\<rparr>)"
  by code_simp

text \<open>
  Claim C3, amended. When the reply parses to a call whose name is outside the \<^verbatim>\<open>builtins.\<close>
  namespace and which the agent's registry does not resolve to a function (the name is absent,
  or the property under the descriptor's key is not a function), \<^verbatim>\<open>complete\<close> throws the
  unclassified \<open>TypeError\<close> with message \<^verbatim>\<open><name> is not a function\<close>: neither Feedback nor
  Internal. While the retry budget remains the tick returns the system prompt
  \<^verbatim>\<open>renderError(err)\<close>, adds one to the retry counter and leaves the history as it was.
\<close>

theorem unregistered_call_type_error:
  assumes "fst (exchange c a) = Inr completion"
    and "tpl_parseResponse (template c) completion = Some f"
    and "\<not> startsWith (name f) ''builtins.''"
    and "agent_exports (agent c) = Some exps"
    and "\<not> registered_function (agent c) exps (name f)"
    and "retries c < max_retries c"
  shows "fst (tick_complete c a) = Inl (TypeError (name f @ '' is not a function'')) \<and>
         fst (tick c a) =
           Inr (PendingR \<lparr>role = System,
                  prompt = Some (tpl_renderError (template c)
                                   (TypeError (name f @ '' is not a function'')))\<rparr>) \<and>
         retries (snd (tick c a)) = retries c + 1 \<and>
         history (snd (tick c a)) = history c"
proof -
  let ?act = "\<lparr>call = f, action_output = JUndefined\<rparr>"
  let ?c = "c\<lparr>world := snd (exchange c a)\<rparr>"
  let ?err = "TypeError (name f @ '' is not a function'')"
  have "doAction ?c ?act = (Inl ?err, ?c)"
    using assms(3-5) doAction_not_a_function [of ?act ?c exps] by simp
  then have tc: "tick_complete c a = (Inl ?err, ?c)"
    using assms(1,2) by (simp add: tick_complete_dispatch)
  then have "tick c a = tick_catch ?c ?err"
    using tick_failure [of c a ?err] by simp
  then have "tick c a =
      (Inr (PendingR \<lparr>role = System, prompt = Some (tpl_renderError (template c) ?err)\<rparr>),
       ?c\<lparr>retries := retries c + 1\<rparr>)"
    using assms(6) tick_catch_recoverable [of ?err ?c] by simp
  with tc show ?thesis by simp
qed

theorem unregistered_call_type_error_witness:
  "fst (exchange (example_controller [''task 1'']) None) = Inr ''task 1'' \<and>
   tpl_parseResponse (template (example_controller [''task 1''])) ''task 1'' =
     Some \<lparr>name = ''task'', reasoning = None, arguments = [JNum 1]\<rparr> \<and>
   \<not> startsWith ''task'' ''builtins.'' \<and>
   agent_exports (agent (example_controller [''task 1''])) = Some example_exports \<and>
   \<not> registered_function (agent (example_controller [''task 1''])) example_exports ''task'' \<and>
   retries (example_controller [''task 1'']) < max_retries (example_controller [''task 1'']) \<and>
   fst (tick (example_controller [''task 1'']) None) =
     Inr (PendingR \<lparr>role = System, prompt = Some
       ''error: task is not a function. Reply with an object with name, reasoning and arguments.''\<rparr>) \<and>
   retries (snd (tick (example_controller [''task 1'']) None)) = 1"
proof -
  let ?c = "example_controller [''task 1'']"
  let ?f = "\<lparr>name = ''task'', reasoning = None, arguments = [JNum 1]\<rparr>"
  have 1: "fst (exchange ?c None) = Inr ''task 1''" by code_simp
  have 2: "tpl_parseResponse (template ?c) ''task 1'' = Some ?f" by code_simp
  have 3: "\<not> startsWith (name ?f) ''builtins.''" by code_simp
  have 4: "agent_exports (agent ?c) = Some example_exports"
    by (simp add: example_controller_def new_AgentController_def example_agent_def)
  have 5: "\<not> registered_function (agent ?c) example_exports (name ?f)"
    by code_simp
  have 6: "retries ?c < max_retries ?c" by code_simp
  have t: "template ?c = example_template"
    by (simp add: example_controller_def new_AgentController_def example_agent_def)
  have r: "retries ?c = 0" by code_simp
  from unregistered_call_type_error [OF 1 2 3 4 5 6]
  have concl: "fst (tick ?c None) =
     Inr (PendingR \<lparr>role = System, prompt = Some
       ''error: task is not a function. Reply with an object with name, reasoning and arguments.''\<rparr>)"
    "retries (snd (tick ?c None)) = 1"
    by (simp_all add: t r example_template_def)
  from 1 2 3 4 5 6 concl show ?thesis by simp
qed

section \<open>The built-in namespace\<close>

text \<open>
  Claim C4 as stated fails for a tick entered with an exhausted retry budget: the Exit thrown
  by \<^verbatim>\<open>handleBuiltin\<close> is caught, the budget test throws it again and the tick raises instead of
  returning. The state is reached by the loop itself: after five replies that do not parse the
  counter is 5, and the sixth tick, in which the model calls \<^verbatim>\<open>builtins.exit\<close> with 7, throws
  the Exit.
\<close>

theorem exit_after_exhaustion_counterexample:
  "retries (snd (drive 4 (example_controller
      [''?'', ''?'', ''?'', ''?'', ''?'', ''builtins.exit 7'']) None)) = 5 \<and>
   fst (drive 5 (example_controller
      [''?'', ''?'', ''?'', ''?'', ''?'', ''builtins.exit 7'']) None) = Inl (Exit (JNum 7)) \<and>
   fst (tick ((example_controller [''builtins.exit 7''])\<lparr>retries := 5\<rparr>) None) =
     Inl (Exit (JNum 7))"
  by code_simp

text \<open>
  Claim C4, amended. In a tick entered with \<open>retries < max_retries\<close>, a reply that parses to
  the call \<^verbatim>\<open>builtins.exit\<close> makes the tick return an Exited: with output \<^verbatim>\<open>undefined\<close> when the
  call has no argument, with output \<open>v\<close> when its argument list starts with \<open>v\<close>. The retry
  counter and the history stay as they were.
\<close>

theorem builtin_exit_returns_Exited:
  assumes "fst (exchange c a) = Inr completion"
    and "tpl_parseResponse (template c) completion = Some f"
    and "name f = ''builtins.exit''"
    and "retries c < max_retries c"
  shows "fst (tick c a) =
           Inr (ExitedR \<lparr>output = (case arguments f of [] \<Rightarrow> JUndefined | v # _ \<Rightarrow> v)\<rparr>) \<and>
         retries (snd (tick c a)) = retries c \<and>
         history (snd (tick c a)) = history c"
proof -
  let ?act = "\<lparr>call = f, action_output = JUndefined\<rparr>"
  let ?c = "c\<lparr>world := snd (exchange c a)\<rparr>"
  let ?v = "case arguments f of [] \<Rightarrow> JUndefined | v # _ \<Rightarrow> v"
  have "startsWith (name f) ''builtins.''"
    using assms(3) by (simp add: startsWith_def)
  then have "tick_complete c a = (Inl (handleBuiltin ?act), ?c)"
    using assms(1,2) by (rule tick_complete_builtin [rotated 2])
  moreover have "handleBuiltin ?act = Exit ?v"
    using assms(3) handleBuiltin_exit [of ?act] by simp
  ultimately have tc: "tick_complete c a = (Inl (Exit ?v), ?c)" by simp
  then have "tick c a = tick_catch ?c (Exit ?v)"
    using tick_failure [of c a "Exit ?v"] by simp
  then have "tick c a = (Inr (ExitedR \<lparr>output = ?v\<rparr>), ?c)"
    using assms(4) tick_catch_Exit [of ?c ?v] by simp
  then show ?thesis by simp
qed

theorem builtin_exit_returns_Exited_witness:
  "fst (exchange (example_controller [''builtins.exit'']) None) = Inr ''builtins.exit'' \<and>
   tpl_parseResponse (template (example_controller [''builtins.exit''])) ''builtins.exit'' =
     Some \<lparr>name = ''builtins.exit'', reasoning = None, arguments = []\<rparr> \<and>
   retries (example_controller [''builtins.exit''])
     < max_retries (example_controller [''builtins.exit'']) \<and>
   fst (tick (example_controller [''builtins.exit'']) None) =
     Inr (ExitedR \<lparr>output = JUndefined\<rparr>) \<and>
   fst (exchange (example_controller [''builtins.exit 7'']) None) = Inr ''builtins.exit 7'' \<and>
   tpl_parseResponse (template (example_controller [''builtins.exit 7''])) ''builtins.exit 7'' =
     Some \<lparr>name = ''builtins.exit'', reasoning = None, arguments = [JNum 7]\<rparr> \<and>
   retries (example_controller [''builtins.exit 7''])
     < max_retries (example_controller [''builtins.exit 7'']) \<and>
   fst (tick (example_controller [''builtins.exit 7'']) None) =
     Inr (ExitedR \<lparr>output = JNum 7\<rparr>)"
proof -
  let ?c = "example_controller [''builtins.exit'']"
  let ?f = "\<lparr>name = ''builtins.exit'', reasoning = None, arguments = []\<rparr>"
  let ?d = "example_controller [''builtins.exit 7'']"
  let ?g = "\<lparr>name = ''builtins.exit'', reasoning = None, arguments = [JNum 7]\<rparr>"
  have c1: "fst (exchange ?c None) = Inr ''builtins.exit''" by code_simp
  have c2: "tpl_parseResponse (template ?c) ''builtins.exit'' = Some ?f" by code_simp
  have c3: "name ?f = ''builtins.exit''" by simp
  have c4: "retries ?c < max_retries ?c" by code_simp
  have d1: "fst (exchange ?d None) = Inr ''builtins.exit 7''" by code_simp
  have d2: "tpl_parseResponse (template ?d) ''builtins.exit 7'' = Some ?g" by code_simp
  have d3: "name ?g = ''builtins.exit''" by simp
  have d4: "retries ?d < max_retries ?d" by code_simp
  from builtin_exit_returns_Exited [OF c1 c2 c3 c4]
  have c: "fst (tick ?c None) = Inr (ExitedR \<lparr>output = JUndefined\<rparr>)" by simp
  from builtin_exit_returns_Exited [OF d1 d2 d3 d4]
  have d: "fst (tick ?d None) = Inr (ExitedR \<lparr>output = JNum 7\<rparr>)" by simp
  from c1 c2 c4 d1 d2 d4 c d show ?thesis by simp
qed

text \<open>
  Claim C5 as stated fails: \<^verbatim>\<open>handleBuiltin\<close> reads the builtin's name as the second segment of
  the call name split at dots, so \<^verbatim>\<open>builtins.exit.now\<close>, where what follows \<^verbatim>\<open>builtins.\<close> is not
  \<^verbatim>\<open>exit\<close>, is an exit all the same.
\<close>

theorem builtin_second_segment_counterexample:
  "fst (tick (example_controller [''builtins.exit.now'']) None) =
     Inr (ExitedR \<lparr>output = JUndefined\<rparr>)"
  by code_simp

text \<open>
  Claim C5, amended. For a call name \<^verbatim>\<open>builtins.<x>\<close> in which the part of \<open>x\<close> before its
  first dot is not \<^verbatim>\<open>exit\<close>, the dispatch throws the Internal error
  \<^verbatim>\<open>unknown builtin '<that part>'\<close> and the tick throws it to the caller, whatever the retry
  counter is (0 included); no prompt is produced, counter and history stay as they were.
\<close>

theorem unknown_builtin_aborts:
  assumes "fst (exchange c a) = Inr completion"
    and "tpl_parseResponse (template c) completion = Some f"
    and "name f = ''builtins.'' @ x"
    and "takeWhile (\<lambda>ch. ch \<noteq> CHR ''.'') x \<noteq> ''exit''"
  shows "fst (tick c a) =
           Inl (Internal (''unknown builtin '' @ [CHR 0x27] @
                          takeWhile (\<lambda>ch. ch \<noteq> CHR ''.'') x @ [CHR 0x27])) \<and>
         retries (snd (tick c a)) = retries c \<and>
         history (snd (tick c a)) = history c"
proof -
  let ?act = "\<lparr>call = f, action_output = JUndefined\<rparr>"
  let ?c = "c\<lparr>world := snd (exchange c a)\<rparr>"
  let ?err = "Internal (''unknown builtin '' @ [CHR 0x27] @
                        takeWhile (\<lambda>ch. ch \<noteq> CHR ''.'') x @ [CHR 0x27])"
  have "startsWith (name f) ''builtins.''"
    using assms(3) startsWith_builtins [of x] by simp
  then have "tick_complete c a = (Inl (handleBuiltin ?act), ?c)"
    using assms(1,2) by (rule tick_complete_builtin [rotated 2])
  moreover have "handleBuiltin ?act = ?err"
    using assms(3,4) handleBuiltin_unknown [of ?act x] by simp
  ultimately have tc: "tick_complete c a = (Inl ?err, ?c)" by simp
  then have "tick c a = tick_catch ?c ?err"
    using tick_failure [of c a ?err] by simp
  then have "tick c a = (Inl ?err, ?c)"
    by (simp only: tick_catch_Internal)
  then show ?thesis by simp
qed

theorem unknown_builtin_aborts_witness:
  "fst (exchange (example_controller [''builtins.halt'']) None) = Inr ''builtins.halt'' \<and>
   tpl_parseResponse (template (example_controller [''builtins.halt''])) ''builtins.halt'' =
     Some \<lparr>name = ''builtins.'' @ ''halt'', reasoning = None, arguments = []\<rparr> \<and>
   takeWhile (\<lambda>ch. ch \<noteq> CHR ''.'') ''halt'' \<noteq> ''exit'' \<and>
   retries (example_controller [''builtins.halt'']) = 0 \<and>
   fst (tick (example_controller [''builtins.halt'']) None) =
     Inl (Internal (''unknown builtin '' @ [CHR 0x27] @ ''halt'' @ [CHR 0x27])) \<and>
   retries (snd (tick (example_controller [''builtins.halt'']) None)) = 0"
proof -
  let ?c = "example_controller [''builtins.halt'']"
  let ?f = "\<lparr>name = ''builtins.'' @ ''halt'', reasoning = None, arguments = []\<rparr>"
  have 1: "fst (exchange ?c None) = Inr ''builtins.halt''" by code_simp
  have 2: "tpl_parseResponse (template ?c) ''builtins.halt'' = Some ?f" by code_simp
  have 3: "name ?f = ''builtins.'' @ ''halt''" by simp
  have 4: "takeWhile (\<lambda>ch. ch \<noteq> CHR ''.'') ''halt'' \<noteq> ''exit''" by simp
  have r: "retries ?c = 0" by code_simp
  from unknown_builtin_aborts [OF 1 2 3 4] r
  have concl: "fst (tick ?c None) =
      Inl (Internal (''unknown builtin '' @ [CHR 0x27] @ ''halt'' @ [CHR 0x27]))"
    "retries (snd (tick ?c None)) = 0"
    by simp_all
  from 1 2 4 r concl show ?thesis by simp
qed

section \<open>Replies that do not parse\<close>

text \<open>
  Claim C6 as stated fails in one part: the prompt returned after a parse failure is the
  message of the Feedback, which diagnoses the failure and quotes the reply, and nothing else.
  It does not pass through \<^verbatim>\<open>renderError\<close> and does not restate the reply shape.
\<close>

theorem parse_failure_prompt_counterexample:
  "fst (tick (example_controller [''? sorry'']) None) =
     Inr (PendingR \<lparr>role = System,
            prompt = Some ''could not extract JSON from your response: ? sorry''\<rparr>) \<and>
   \<not> restates_reply_shape ''could not extract JSON from your response: ? sorry''"
  by code_simp

text \<open>
  Claim C6, amended. When the template cannot parse the completion, \<^verbatim>\<open>complete\<close> throws the
  Feedback \<^verbatim>\<open>could not extract JSON from your response: <completion>\<close>; while the retry budget
  remains the tick returns the system prompt made of exactly that message, the retry counter
  goes up by exactly one and the history stays as it was.
\<close>

theorem parse_failure_feedback:
  assumes "fst (exchange c a) = Inr completion"
    and "tpl_parseResponse (template c) completion = None"
    and "retries c < max_retries c"
  shows "fst (tick_complete c a) =
           Inl (Feedback (''could not extract JSON from your response: '' @ completion)) \<and>
         fst (tick c a) =
           Inr (PendingR \<lparr>role = System,
                  prompt = Some (''could not extract JSON from your response: '' @ completion)\<rparr>) \<and>
         retries (snd (tick c a)) = retries c + 1 \<and>
         history (snd (tick c a)) = history c"
proof -
  let ?c = "c\<lparr>world := snd (exchange c a)\<rparr>"
  let ?err = "Feedback (''could not extract JSON from your response: '' @ completion)"
  have tc: "tick_complete c a = (Inl ?err, ?c)"
    using assms(1,2) by (cases "exchange c a") (simp add: tick_complete_cases)
  then have "tick c a = tick_catch ?c ?err"
    using tick_failure [of c a ?err] by simp
  then have "tick c a =
      (Inr (PendingR \<lparr>role = System, prompt = Some (corrective_prompt (template ?c) ?err)\<rparr>),
       ?c\<lparr>retries := retries ?c + 1\<rparr>)"
    using assms(3) tick_catch_recoverable [of ?err ?c] by simp
  with tc show ?thesis by simp
qed

theorem parse_failure_feedback_witness:
  "fst (exchange (example_controller [''? sorry'']) None) = Inr ''? sorry'' \<and>
   tpl_parseResponse (template (example_controller [''? sorry''])) ''? sorry'' = None \<and>
   retries (example_controller [''? sorry'']) = 0 \<and>
   max_retries (example_controller [''? sorry'']) = 5 \<and>
   fst (tick (example_controller [''? sorry'']) None) =
     Inr (PendingR \<lparr>role = System,
            prompt = Some ''could not extract JSON from your response: ? sorry''\<rparr>) \<and>
   retries (snd (tick (example_controller [''? sorry'']) None)) = 1"
proof -
  let ?c = "example_controller [''? sorry'']"
  have 1: "fst (exchange ?c None) = Inr ''? sorry''" by code_simp
  have 2: "tpl_parseResponse (template ?c) ''? sorry'' = None" by code_simp
  have r: "retries ?c = 0" "max_retries ?c = 5" by code_simp+
  then have 3: "retries ?c < max_retries ?c" by simp
  from parse_failure_feedback [OF 1 2 3] r
  have concl: "fst (tick ?c None) =
     Inr (PendingR \<lparr>role = System,
            prompt = Some ''could not extract JSON from your response: ? sorry''\<rparr>)"
    "retries (snd (tick ?c None)) = 1"
    by simp_all
  from 1 2 r concl show ?thesis by simp
qed

section \<open>Interrupts\<close>

text \<open>
  Claim C7 as stated fails for a tick entered with an exhausted retry budget: the budget test
  throws the Interrupt itself, still wrapped. After five replies that do not parse, a sixth
  tick in which the capability \<^verbatim>\<open>boom\<close> throws an Interrupt around \<^verbatim>\<open>Error("disk full")\<close> throws the
  Interrupt, not the inner error.
\<close>

theorem interrupt_after_exhaustion_counterexample:
  "retries (snd (drive 4 (example_controller
      [''?'', ''?'', ''?'', ''?'', ''?'', ''boom'']) None)) = 5 \<and>
   fst (drive 5 (example_controller
      [''?'', ''?'', ''?'', ''?'', ''?'', ''boom'']) None) = Inl (Interrupt (Error ''disk full'')) \<and>
   fst (tick ((example_controller [''boom''])\<lparr>retries := 5\<rparr>) None) =
     Inl (Interrupt (Error ''disk full''))"
  by code_simp

text \<open>
  Claim C7, amended. In a tick entered with \<open>retries < max_retries\<close>, an Interrupt thrown
  during \<^verbatim>\<open>complete\<close> is not retried: the tick throws its inner error to the caller, returns no
  Pending, and leaves the retry counter and the history as they were.
\<close>

theorem interrupt_unwrapped:
  assumes "fst (tick_complete c a) = Inl (Interrupt inner_error)"
    and "retries c < max_retries c"
  shows "tick c a = (Inl inner_error, snd (tick_complete c a)) \<and>
         retries (snd (tick c a)) = retries c \<and>
         history (snd (tick c a)) = history c"
proof -
  have "tick c a = tick_catch (snd (tick_complete c a)) (Interrupt inner_error)"
    using assms(1) by (rule tick_failure)
  then have "tick c a = (Inl inner_error, snd (tick_complete c a))"
    using assms(2) by (simp add: tick_catch_Interrupt tick_complete_frame)
  then show ?thesis
    using assms(1) by (simp add: tick_complete_frame tick_complete_history_Inl)
qed

theorem interrupt_unwrapped_witness:
  "fst (tick_complete (example_controller [''boom'']) None) =
     Inl (Interrupt (Error ''disk full'')) \<and>
   retries (example_controller [''boom'']) = 0 \<and>
   max_retries (example_controller [''boom'']) = 5 \<and>
   fst (tick (example_controller [''boom'']) None) = Inl (Error ''disk full'') \<and>
   retries (snd (tick (example_controller [''boom'']) None)) = 0"
proof -
  let ?c = "example_controller [''boom'']"
  have 1: "fst (tick_complete ?c None) = Inl (Interrupt (Error ''disk full''))" by code_simp
  have r: "retries ?c = 0" "max_retries ?c = 5" by code_simp+
  then have 2: "retries ?c < max_retries ?c" by simp
  from interrupt_unwrapped [OF 1 2] r
  have concl: "fst (tick ?c None) = Inl (Error ''disk full'')" "retries (snd (tick ?c None)) = 0"
    by (simp_all add: tick_complete_frame)
  from 1 r concl show ?thesis by simp
qed

section \<open>The discriminators of a tick result\<close>

lemma isExited_iff: "isExited r \<longleftrightarrow> (\<exists>e. r = ExitedR e)"
  by (cases r) (simp_all add: isExited_def split: option.split)

lemma isPending_iff: "isPending r \<longleftrightarrow> (\<exists>p text. r = PendingR p \<and> prompt p = Some text)"
  by (cases r) (auto simp add: isPending_def split: option.split)

text \<open>
  Claim C8 does not hold of the code. \<^verbatim>\<open>isPending\<close> tests for the key \<^verbatim>\<open>prompt\<close>, an optional
  property of a Pending; the object \<^verbatim>\<open>{role: "user"}\<close> that a successful tick returns has no
  such key, so it satisfies neither discriminator although it is a Pending.
\<close>

theorem success_result_not_isPending:
  "fst (tick (example_controller [''add 2 3'']) None) =
     Inr (PendingR \<lparr>role = User, prompt = None\<rparr>) \<and>
   isPending (PendingR \<lparr>role = User, prompt = None\<rparr>) = False \<and>
   isExited (PendingR \<lparr>role = User, prompt = None\<rparr>) = False"
  by code_simp

section \<open>The run entry point\<close>

text \<open>
  \<^verbatim>\<open>makeController\<close> hands the flag to the controller, which then leaves the exit node out
  when the flag is \<^verbatim>\<open>false\<close>.
\<close>

lemma makeController_passes_allow_exit:
  "makeController Naive mk imp flags w = Inr c \<Longrightarrow> allow_exit (opts c) = cf_allow_exit flags"
  by (auto simp add: makeController_def new_AgentController_def Let_def split: option.split_asm)

lemma makeController_without_exit:
  assumes "makeController Naive mk imp flags w = Inr c" and "cf_allow_exit flags = Some False"
  shows "context_scope c = ExportsMap_forEach (exports c) adder (newScope (prompts c))"
  using makeController_passes_allow_exit [OF assms(1)] assms(2)
  by (simp add: context_scope_def)

text \<open>
  Claim C9 does not hold of the code. \<^verbatim>\<open>run\<close> constructs the controller without an options
  argument, so the controller's \<^verbatim>\<open>allow_exit\<close> is \<^verbatim>\<open>undefined\<close> whatever the caller's flag says,
  and \<^verbatim>\<open>renderContext\<close> adds the \<^verbatim>\<open>builtins.exit\<close> node to the scope even when the caller passed
  \<^verbatim>\<open>allow_exit: false\<close>.
\<close>

theorem run_ignores_allow_exit:
  "allow_exit (opts (run_controller Naive mk (flags\<lparr>rf_allow_exit := Some False\<rparr>) w)) = None \<and>
   context_scope (run_controller Naive mk (flags\<lparr>rf_allow_exit := Some False\<rparr>) w) =
     addNode (ExportsMap_forEach (exports (run_controller Naive mk flags w)) adder
                (newScope (rf_prompts flags))) exit_node"
  by (simp add: run_controller_def new_AgentController_def context_scope_def)

end
